theory Spec2Isabelle
  imports Complex_Main "HOL-Library.Multiset" "HOL-Library.Sublist" "HOL-Library.Monad_Syntax"
    "HOL-Library.Log_Nat"
begin

section \<open>JavaScript strings and numbers\<close>

text \<open>
  A JavaScript string is a sequence of UTF-16 code units; a code unit is modelled as a
  natural number. \<open>str\<close> embeds an ASCII literal; the naira sign of the price strings is
  the single code unit U+20A6.
\<close>

type_synonym jsstring = "nat list"

definition str :: "string \<Rightarrow> jsstring" where
  "str s = map of_char s"

definition naira :: nat where
  "naira = 8358"

text \<open>
  \<open>String.prototype.toLowerCase\<close> applies the case mapping of the Unicode character
  database, a table of the engine that is no part of the repository. Every function
  below that lowers a string takes the mapping as its first argument, named
  \<open>toLowerCase\<close> as in the source, and what is proved of it holds for every mapping.
  "Case-insensitive" always means "equal after \<open>toLowerCase\<close>", as in the source.
\<close>

type_synonym case_mapping = "jsstring \<Rightarrow> jsstring"

text \<open>
  What the table does to a string of ASCII code units: the capitals A to Z become the
  small letters, every other code unit stays. \<open>asciiLowerCase\<close> is this part of the
  mapping; it stands for \<open>toLowerCase\<close> only where a concrete catalogue of ASCII
  strings is run. \<open>lowers_ascii\<close> says of a mapping that it agrees with it on the
  ASCII strings, as the engine's mapping does.
\<close>

definition asciiLowerUnit :: "nat \<Rightarrow> nat" where
  "asciiLowerUnit c = (if 65 \<le> c \<and> c \<le> 90 then c + 32 else c)"

definition asciiLowerCase :: case_mapping where
  "asciiLowerCase s = map asciiLowerUnit s"

definition lowers_ascii :: "case_mapping \<Rightarrow> bool" where
  "lowers_ascii toLowerCase \<longleftrightarrow>
     (\<forall>s. list_all (\<lambda>c. c < 128) s \<longrightarrow> toLowerCase s = asciiLowerCase s)"

text \<open>\<open>haystack.includes(needle)\<close>: the needle occurs as a contiguous substring.\<close>

fun includes_str :: "jsstring \<Rightarrow> jsstring \<Rightarrow> bool" where
  "includes_str [] q = (q = [])"
| "includes_str (c # cs) q = (prefix q (c # cs) \<or> includes_str cs q)"

text \<open>
  \<open>StrWhiteSpaceChar\<close> of the language standard: what \<open>trim\<close> removes and
  \<open>parseFloat\<close> skips.
\<close>

definition isWhiteSpace :: "nat \<Rightarrow> bool" where
  "isWhiteSpace c \<longleftrightarrow>
     c \<in> set [9, 10, 11, 12, 13, 32, 160, 5760, 8232, 8233, 8239, 8287, 12288, 65279]
     \<or> (8192 \<le> c \<and> c \<le> 8202)"

definition trim :: "jsstring \<Rightarrow> jsstring" where
  "trim s = rev (dropWhile isWhiteSpace (rev (dropWhile isWhiteSpace s)))"

text \<open>
  A JavaScript number: a finite double, one of the two infinities, or NaN. A finite
  double is given by its value, a rational. The difference of two doubles is kept exact:
  only its sign is read (by the sort), and the sign of the rounded difference is the sign
  of the exact one.
\<close>

datatype number = Num rat | PosInf | NegInf | NaN

fun sub :: "number \<Rightarrow> number \<Rightarrow> number" where
  "sub (Num a) (Num b) = Num (a - b)"
| "sub NaN _ = NaN"
| "sub _ NaN = NaN"
| "sub PosInf PosInf = NaN"
| "sub NegInf NegInf = NaN"
| "sub PosInf _ = PosInf"
| "sub NegInf _ = NegInf"
| "sub (Num a) PosInf = NegInf"
| "sub (Num a) NegInf = PosInf"

fun positive :: "number \<Rightarrow> bool" where
  "positive (Num a) = (0 < a)"
| "positive PosInf = True"
| "positive NegInf = False"
| "positive NaN = False"


subsection \<open>Rounding to a double\<close>

text \<open>
  The conversion of a non-negative decimal value to the nearest double, ties to the even
  significand. \<open>binaryExponent r\<close> is the exponent \<open>e\<close> with
  \<open>2^e \<le> r < 2^(e+1)\<close>; the doubles around \<open>r\<close> are the multiples of
  \<open>ulp r\<close>, 53 bits below that exponent and never below the exponent -1022 of the
  subnormal numbers, so that a value under half the smallest double becomes 0. A value
  that rounds up to \<open>2^1024\<close> is an infinity.
\<close>

definition binaryExponent :: "rat \<Rightarrow> int" where
  "binaryExponent r =
     (case quotient_of r of
        (p, q) \<Rightarrow> if power_int 2 (bitlen p - bitlen q) \<le> r then bitlen p - bitlen q
                  else bitlen p - bitlen q - 1)"

definition roundHalfEven :: "rat \<Rightarrow> int" where
  "roundHalfEven x =
     (if x - of_int \<lfloor>x\<rfloor> < 1 / 2 then \<lfloor>x\<rfloor>
      else if 1 / 2 < x - of_int \<lfloor>x\<rfloor> then \<lfloor>x\<rfloor> + 1
      else if even \<lfloor>x\<rfloor> then \<lfloor>x\<rfloor> else \<lfloor>x\<rfloor> + 1)"

definition ulp :: "rat \<Rightarrow> rat" where
  "ulp r = power_int 2 (max (binaryExponent r) (- 1022) - 52)"

definition toDouble :: "rat \<Rightarrow> number" where
  "toDouble r =
     (if 2 ^ 1024 \<le> of_int (roundHalfEven (r / ulp r)) * ulp r then PosInf
      else Num (of_int (roundHalfEven (r / ulp r)) * ulp r))"

subsection \<open>parseFloat\<close>

definition isDigit :: "nat \<Rightarrow> bool" where
  "isDigit c \<longleftrightarrow> 48 \<le> c \<and> c \<le> 57"

fun digitsValue :: "nat \<Rightarrow> jsstring \<Rightarrow> nat" where
  "digitsValue acc [] = acc"
| "digitsValue acc (c # cs) = digitsValue (acc * 10 + (c - 48)) cs"

fun signPart :: "jsstring \<Rightarrow> bool \<times> jsstring" where
  "signPart [] = (False, [])"
| "signPart (c # r) =
     (if c = 45 then (True, r) else if c = 43 then (False, r) else (False, c # r))"

text \<open>The exponent part \<open>e\<close>, optional sign, at least one digit; 0 when it is absent.\<close>

fun exponentPart :: "jsstring \<Rightarrow> int" where
  "exponentPart [] = 0"
| "exponentPart (c # r) =
     (if c = 101 \<or> c = 69 then
        (case signPart r of
           (neg, r2) \<Rightarrow>
             if takeWhile isDigit r2 = [] then 0
             else if neg then - int (digitsValue 0 (takeWhile isDigit r2))
             else int (digitsValue 0 (takeWhile isDigit r2)))
      else 0)"

text \<open>The digits behind a decimal point, and what follows the fraction.\<close>

fun fractionDigits :: "jsstring \<Rightarrow> jsstring" where
  "fractionDigits [] = []"
| "fractionDigits (c # r) = (if c = 46 then takeWhile isDigit r else [])"

fun afterFraction :: "jsstring \<Rightarrow> jsstring" where
  "afterFraction [] = []"
| "afterFraction (c # r) = (if c = 46 then dropWhile isDigit r else c # r)"

definition scale10 :: "rat \<Rightarrow> int \<Rightarrow> rat" where
  "scale10 m e = (if 0 \<le> e then m * 10 ^ nat e else m / 10 ^ nat (- e))"

definition decimalValue :: "jsstring \<Rightarrow> number" where
  "decimalValue u =
     (if takeWhile isDigit u = [] \<and> fractionDigits (dropWhile isDigit u) = [] then NaN
      else toDouble
             (scale10
                (of_nat (digitsValue 0 (takeWhile isDigit u @ fractionDigits (dropWhile isDigit u)))
                   / 10 ^ length (fractionDigits (dropWhile isDigit u)))
                (exponentPart (afterFraction (dropWhile isDigit u)))))"

definition unsignedLiteral :: "jsstring \<Rightarrow> number" where
  "unsignedLiteral u = (if prefix (str ''Infinity'') u then PosInf else decimalValue u)"

fun negate :: "number \<Rightarrow> number" where
  "negate (Num a) = Num (- a)"
| "negate PosInf = NegInf"
| "negate NegInf = PosInf"
| "negate NaN = NaN"

text \<open>
  \<open>parseFloat\<close>: leading white space is skipped, then the longest prefix that is a
  decimal literal (optional sign, then \<open>Infinity\<close>, or digits with an optional fraction
  and exponent) is converted; NaN when there is no such prefix.
\<close>

definition parseFloat :: "jsstring \<Rightarrow> number" where
  "parseFloat s =
     (case signPart (dropWhile isWhiteSpace s) of
        (neg, u) \<Rightarrow> if neg then negate (unsignedLiteral u) else unsignedLiteral u)"

section \<open>The course catalogue (pages/Index.tsx)\<close>

record course =
  course_id :: nat
  title :: jsstring
  instructor :: jsstring
  language :: jsstring
  level :: jsstring
  duration :: jsstring
  students :: int
  rating :: rat
  price :: jsstring
  image :: jsstring
  description :: jsstring

text \<open>
  \<open>Array.prototype.sort(comparefn)\<close>: a stable sort driven by the comparison function.
  An element moves behind another one only when the comparison function returns a value
  greater than zero for the pair; a result of NaN counts as zero, as the standard's
  \<open>SortCompare\<close> prescribes. The sort is written as the stable insertion sort. Where
  the comparison function orders the elements consistently, every conforming engine
  returns this list; where it does not (a NaN among the prices), the standard leaves the
  order to the engine, and the lists computed below for such inputs are those of the
  insertion sort.
\<close>

fun insert_cmp :: "('a \<Rightarrow> 'a \<Rightarrow> number) \<Rightarrow> 'a \<Rightarrow> 'a list \<Rightarrow> 'a list" where
  "insert_cmp cmp x [] = [x]"
| "insert_cmp cmp x (y # ys) =
     (if positive (cmp x y) then y # insert_cmp cmp x ys else x # y # ys)"

fun sort_cmp :: "('a \<Rightarrow> 'a \<Rightarrow> number) \<Rightarrow> 'a list \<Rightarrow> 'a list" where
  "sort_cmp cmp [] = []"
| "sort_cmp cmp (x # xs) = insert_cmp cmp x (sort_cmp cmp xs)"

text \<open>The price of a course as the two price comparators compute it.\<close>

definition parsePrice :: "jsstring \<Rightarrow> number" where
  "parsePrice p =
     (if p = str ''Free'' then Num 0
      else parseFloat (filter (\<lambda>c. c \<noteq> naira \<and> c \<noteq> 44) p))"

definition cmpPopular :: "course \<Rightarrow> course \<Rightarrow> number" where
  "cmpPopular a b = Num (of_int (students b - students a))"

definition cmpRating :: "course \<Rightarrow> course \<Rightarrow> number" where
  "cmpRating a b = Num (rating b - rating a)"

definition cmpPriceLow :: "course \<Rightarrow> course \<Rightarrow> number" where
  "cmpPriceLow a b = sub (parsePrice (price a)) (parsePrice (price b))"

definition cmpPriceHigh :: "course \<Rightarrow> course \<Rightarrow> number" where
  "cmpPriceHigh a b = sub (parsePrice (price b)) (parsePrice (price a))"

definition sortCourses :: "jsstring \<Rightarrow> course list \<Rightarrow> course list" where
  "sortCourses sortBy filtered =
     (if sortBy = str ''popular'' then sort_cmp cmpPopular filtered
      else if sortBy = str ''rating'' then sort_cmp cmpRating filtered
      else if sortBy = str ''newest'' then filtered
      else if sortBy = str ''price-low'' then sort_cmp cmpPriceLow filtered
      else if sortBy = str ''price-high'' then sort_cmp cmpPriceHigh filtered
      else filtered)"

definition matchesQuery :: "case_mapping \<Rightarrow> jsstring \<Rightarrow> course \<Rightarrow> bool" where
  "matchesQuery toLowerCase searchQuery c \<longleftrightarrow>
     includes_str (toLowerCase (title c)) (toLowerCase searchQuery)
     \<or> includes_str (toLowerCase (instructor c)) (toLowerCase searchQuery)
     \<or> includes_str (toLowerCase (language c)) (toLowerCase searchQuery)"

definition matchesLanguage :: "case_mapping \<Rightarrow> jsstring \<Rightarrow> course \<Rightarrow> bool" where
  "matchesLanguage toLowerCase selectedLanguage c \<longleftrightarrow>
     toLowerCase (language c) = toLowerCase selectedLanguage"

definition matchesLevel :: "case_mapping \<Rightarrow> jsstring \<Rightarrow> course \<Rightarrow> bool" where
  "matchesLevel toLowerCase selectedLevel c \<longleftrightarrow>
     toLowerCase (level c) = toLowerCase selectedLevel"

text \<open>The three filter steps of \<open>applyFilters\<close>, each skipped when its control is unset.\<close>

definition filterCourses ::
  "case_mapping \<Rightarrow> jsstring \<Rightarrow> jsstring \<Rightarrow> jsstring \<Rightarrow> course list \<Rightarrow> course list" where
  "filterCourses toLowerCase searchQuery selectedLanguage selectedLevel courses =
     (let filtered = courses;
          filtered = (if searchQuery \<noteq> []
                      then filter (matchesQuery toLowerCase searchQuery) filtered
                      else filtered);
          filtered = (if selectedLanguage \<noteq> [] \<and> selectedLanguage \<noteq> str ''all''
                      then filter (matchesLanguage toLowerCase selectedLanguage) filtered
                      else filtered);
          filtered = (if selectedLevel \<noteq> [] \<and> selectedLevel \<noteq> str ''all''
                      then filter (matchesLevel toLowerCase selectedLevel) filtered
                      else filtered)
      in filtered)"

definition applyFilters ::
  "case_mapping \<Rightarrow> jsstring \<Rightarrow> jsstring \<Rightarrow> jsstring \<Rightarrow> jsstring \<Rightarrow> course list
     \<Rightarrow> course list" where
  "applyFilters toLowerCase searchQuery selectedLanguage selectedLevel sortBy courses =
     sortCourses sortBy
       (filterCourses toLowerCase searchQuery selectedLanguage selectedLevel courses)"

text \<open>The three tests together: what a course must pass to stay in the list.\<close>

definition keeps :: "case_mapping \<Rightarrow> jsstring \<Rightarrow> jsstring \<Rightarrow> jsstring \<Rightarrow> course \<Rightarrow> bool" where
  "keeps toLowerCase q lang lvl c \<longleftrightarrow>
     (q = [] \<or> matchesQuery toLowerCase q c)
     \<and> (lang = [] \<or> lang = str ''all'' \<or> matchesLanguage toLowerCase lang c)
     \<and> (lvl = [] \<or> lvl = str ''all'' \<or> matchesLevel toLowerCase lvl c)"

text \<open>The mock catalogue of the page, shown when the service returns no course.\<close>

definition mockCourses :: "course list" where
  "mockCourses =
     [\<lparr>course_id = 1, title = str ''Complete Yoruba for Beginners'',
       instructor = str ''Adebayo Olumide'', language = str ''Yoruba'',
       level = str ''Beginner'', duration = str ''8 weeks'', students = 2547,
       rating = 49 / 10, price = naira # str ''15,000'', image = str ''@/assets/yoruba-course.jpg'',
       description = str ''Learn Yoruba from scratch with native speakers. Master greetings, daily conversations, and cultural context.''\<rparr>,
      \<lparr>course_id = 2, title = str ''Business Igbo Essentials'',
       instructor = str ''Chioma Okafor'', language = str ''Igbo'',
       level = str ''Intermediate'', duration = str ''6 weeks'', students = 1832,
       rating = 48 / 10, price = naira # str ''18,000'', image = str ''@/assets/igbo-course.jpg'',
       description = str ''Professional Igbo for business settings. Learn formal communication and cultural business practices.''\<rparr>,
      \<lparr>course_id = 3, title = str ''Hausa Conversation Mastery'',
       instructor = str ''Musa Abdullahi'', language = str ''Hausa'',
       level = str ''Intermediate'', duration = str ''10 weeks'', students = 1456,
       rating = 47 / 10, price = str ''Free'', image = str ''@/assets/hausa-course.jpg'',
       description = str ''Advanced conversational Hausa for fluent communication in Northern Nigeria and beyond.''\<rparr>]"

text \<open>A catalogue in which one price is no price: the second course costs \<open>TBD\<close>.\<close>

definition tbdCatalogue :: "course list" where
  "tbdCatalogue =
     [\<lparr>course_id = 1, title = str ''Yoruba'', instructor = str ''A'', language = str ''Yoruba'',
       level = str ''Beginner'', duration = str ''8 weeks'', students = 10, rating = 48 / 10,
       price = naira # str ''200'', image = [], description = []\<rparr>,
      \<lparr>course_id = 2, title = str ''Igbo'', instructor = str ''B'', language = str ''Igbo'',
       level = str ''Beginner'', duration = str ''8 weeks'', students = 10, rating = 48 / 10,
       price = str ''TBD'', image = [], description = []\<rparr>,
      \<lparr>course_id = 3, title = str ''Hausa'', instructor = str ''C'', language = str ''Hausa'',
       level = str ''Beginner'', duration = str ''8 weeks'', students = 10, rating = 48 / 10,
       price = naira # str ''100'', image = [], description = []\<rparr>]"


subsection \<open>The pipeline on the store\<close>

text \<open>
  \<open>applyFilters\<close> works on arrays that live in the store: \<open>[...courses]\<close> and
  \<open>filter\<close> allocate a new array, \<open>sort\<close> reorders the array it is called on in
  place. The store is the list of all arrays allocated so far; a reference is an index
  into it.
\<close>

type_synonym ref = nat
type_synonym heap = "course list list"

definition read_array :: "ref \<Rightarrow> heap \<Rightarrow> course list option" where
  "read_array r h = (if r < length h then Some (h ! r) else None)"

definition new_array :: "course list \<Rightarrow> heap \<Rightarrow> ref \<times> heap" where
  "new_array xs h = (length h, h @ [xs])"

definition spread :: "ref \<Rightarrow> heap \<Rightarrow> (ref \<times> heap) option" where
  "spread r h = map_option (\<lambda>xs. new_array xs h) (read_array r h)"

definition filter_array :: "(course \<Rightarrow> bool) \<Rightarrow> ref \<Rightarrow> heap \<Rightarrow> (ref \<times> heap) option" where
  "filter_array p r h = map_option (\<lambda>xs. new_array (filter p xs) h) (read_array r h)"

definition sort_array :: "(course \<Rightarrow> course \<Rightarrow> number) \<Rightarrow> ref \<Rightarrow> heap \<Rightarrow> heap option" where
  "sort_array cmp r h = map_option (\<lambda>xs. h[r := sort_cmp cmp xs]) (read_array r h)"

definition sort_switch :: "jsstring \<Rightarrow> ref \<Rightarrow> heap \<Rightarrow> heap option" where
  "sort_switch key filtered h =
     (if key = str ''popular'' then sort_array cmpPopular filtered h
      else if key = str ''rating'' then sort_array cmpRating filtered h
      else if key = str ''newest'' then Some h
      else if key = str ''price-low'' then sort_array cmpPriceLow filtered h
      else if key = str ''price-high'' then sort_array cmpPriceHigh filtered h
      else Some h)"

text \<open>The state of the \<open>Index\<close> component that \<open>applyFilters\<close> reads and writes.\<close>

record index_state =
  courses :: ref
  filteredCourses :: ref
  searchQuery :: jsstring
  selectedLanguage :: jsstring
  selectedLevel :: jsstring
  sortBy :: jsstring

definition applyFilters_heap ::
  "case_mapping \<Rightarrow> index_state \<Rightarrow> heap \<Rightarrow> (index_state \<times> heap) option" where
  "applyFilters_heap toLowerCase s h = do {
     (filtered, h) \<leftarrow> spread (courses s) h;
     (filtered, h) \<leftarrow>
       (if searchQuery s \<noteq> [] then filter_array (matchesQuery toLowerCase (searchQuery s)) filtered h
        else Some (filtered, h));
     (filtered, h) \<leftarrow>
       (if selectedLanguage s \<noteq> [] \<and> selectedLanguage s \<noteq> str ''all''
        then filter_array (matchesLanguage toLowerCase (selectedLanguage s)) filtered h
        else Some (filtered, h));
     (filtered, h) \<leftarrow>
       (if selectedLevel s \<noteq> [] \<and> selectedLevel s \<noteq> str ''all''
        then filter_array (matchesLevel toLowerCase (selectedLevel s)) filtered h
        else Some (filtered, h));
     h \<leftarrow> sort_switch (sortBy s) filtered h;
     Some (s\<lparr>filteredCourses := filtered\<rparr>, h)
   }"

text \<open>A state of the page: the catalogue at reference 0, the sort by rising price.\<close>

definition demoState :: index_state where
  "demoState = \<lparr>courses = 0, filteredCourses = 1, searchQuery = [],
                 selectedLanguage = str ''all'', selectedLevel = [],
                 sortBy = str ''price-low''\<rparr>"

section \<open>Enrolment (EnrollmentButton and pages/CourseDetail.tsx)\<close>

datatype role = Student | Teacher

record profile =
  profile_id :: nat
  profile_role :: role

record enrollment =
  enr_course_id :: nat
  enr_student_id :: nat
  enr_progress :: nat

datatype db_error = UniqueViolation | ServiceError

text \<open>Two rows for the same course and the same student.\<close>

definition same_pair :: "enrollment \<Rightarrow> enrollment \<Rightarrow> bool" where
  "same_pair a b \<longleftrightarrow> enr_course_id a = enr_course_id b \<and> enr_student_id a = enr_student_id b"

text \<open>
  Modelled from the spec: the insert into the \<open>enrollments\<close> table of the hosted data
  service, whose schema is not part of the source files. There is at most one row per
  (course, student) pair: an insert of a second row for a pair is rejected as a
  uniqueness conflict (error code 23505, the code \<open>EnrollmentButton\<close> tests for). A
  row inserted without a progress gets progress 0.
\<close>

definition insert_enrollment ::
  "nat \<Rightarrow> nat \<Rightarrow> nat option \<Rightarrow> enrollment list \<Rightarrow> db_error + enrollment list" where
  "insert_enrollment cid sid prog table =
     (let row = \<lparr>enr_course_id = cid, enr_student_id = sid,
                 enr_progress = (case prog of None \<Rightarrow> 0 | Some p \<Rightarrow> p)\<rparr>
      in if list_ex (same_pair row) table then Inl UniqueViolation else Inr (table @ [row]))"

datatype enroll_toast =
  PleaseSignIn | OnlyStudents | NotYetPublished | SuccessfullyEnrolled
  | AlreadyEnrolled | FailedToEnroll

record enroll_state =
  enrollments :: "enrollment list"
  enroll_toasts :: "enroll_toast list"
  navigated_to_auth :: bool

text \<open>
  \<open>EnrollmentButton.handleEnroll\<close>. \<open>user\<close> is the session (present or not),
  \<open>userProfile\<close> the profile of the viewer.
\<close>

definition button_handleEnroll ::
  "bool \<Rightarrow> profile option \<Rightarrow> nat \<Rightarrow> bool \<Rightarrow> enroll_state \<Rightarrow> enroll_state" where
  "button_handleEnroll user userProfile courseId isPublished st =
     (if \<not> user then st\<lparr>enroll_toasts := enroll_toasts st @ [PleaseSignIn],
                          navigated_to_auth := True\<rparr>
      else case userProfile of
        None \<Rightarrow> st\<lparr>enroll_toasts := enroll_toasts st @ [OnlyStudents]\<rparr>
      | Some p \<Rightarrow>
          if profile_role p \<noteq> Student
          then st\<lparr>enroll_toasts := enroll_toasts st @ [OnlyStudents]\<rparr>
          else if \<not> isPublished
          then st\<lparr>enroll_toasts := enroll_toasts st @ [NotYetPublished]\<rparr>
          else (case insert_enrollment courseId (profile_id p) (Some 0) (enrollments st) of
                  Inr table \<Rightarrow> st\<lparr>enrollments := table,
                                   enroll_toasts := enroll_toasts st @ [SuccessfullyEnrolled]\<rparr>
                | Inl UniqueViolation \<Rightarrow>
                    st\<lparr>enroll_toasts := enroll_toasts st @ [AlreadyEnrolled]\<rparr>
                | Inl ServiceError \<Rightarrow>
                    st\<lparr>enroll_toasts := enroll_toasts st @ [FailedToEnroll]\<rparr>))"

text \<open>
  \<open>CourseDetail.handleEnroll\<close>: the page's own handler. It reads neither the
  published flag of the course nor the error code of a failed insert.
\<close>

definition page_handleEnroll ::
  "bool \<Rightarrow> profile option \<Rightarrow> nat \<Rightarrow> enroll_state \<Rightarrow> enroll_state" where
  "page_handleEnroll user userProfile courseId st =
     (if \<not> user then st\<lparr>navigated_to_auth := True\<rparr>
      else case userProfile of
        None \<Rightarrow> st\<lparr>enroll_toasts := enroll_toasts st @ [OnlyStudents]\<rparr>
      | Some p \<Rightarrow>
          if profile_role p \<noteq> Student
          then st\<lparr>enroll_toasts := enroll_toasts st @ [OnlyStudents]\<rparr>
          else (case insert_enrollment courseId (profile_id p) None (enrollments st) of
                  Inl e \<Rightarrow> st\<lparr>enroll_toasts := enroll_toasts st @ [FailedToEnroll]\<rparr>
                | Inr table \<Rightarrow> st\<lparr>enrollments := table,
                                   enroll_toasts := enroll_toasts st @ [SuccessfullyEnrolled]\<rparr>))"

text \<open>A student, and a page on which nobody is enrolled yet.\<close>

definition studentSeven :: profile where
  "studentSeven = \<lparr>profile_id = 7, profile_role = Student\<rparr>"

definition noEnrollments :: enroll_state where
  "noEnrollments = \<lparr>enrollments = [], enroll_toasts = [], navigated_to_auth = False\<rparr>"

section \<open>Uploads (components/FileUploader.tsx)\<close>

text \<open>\<open>s.split(sep)\<close> for a separator of one code unit; the result is never empty.\<close>

fun split :: "nat \<Rightarrow> jsstring \<Rightarrow> jsstring list" where
  "split sep [] = [[]]"
| "split sep (c # cs) =
     (if c = sep then [] # split sep cs
      else (case split sep cs of [] \<Rightarrow> [[c]] | p # ps \<Rightarrow> (c # p) # ps))"

text \<open>\<open>Array.prototype.pop\<close> read for its result: the last element, if there is one.\<close>

definition pop :: "'a list \<Rightarrow> 'a option" where
  "pop xs = (if xs = [] then None else Some (last xs))"

record js_file =
  file_handle :: nat
  file_name :: jsstring
  file_size :: nat
  file_type :: jsstring

record uploader_props =
  bucket :: jsstring
  folder :: jsstring
  accept :: jsstring
  maxSize :: nat

text \<open>The two messages of \<open>validateFile\<close>, with the value each one interpolates.\<close>

datatype rejection = FileSizeExceeds nat | FileTypeNotSupported jsstring

definition acceptedTypes :: "uploader_props \<Rightarrow> jsstring list" where
  "acceptedTypes props = map trim (split 44 (accept props))"

definition fileExtension :: "case_mapping \<Rightarrow> js_file \<Rightarrow> jsstring" where
  "fileExtension toLowerCase f =
     (case pop (split 46 (file_name f)) of
        None \<Rightarrow> str ''.undefined''
      | Some e \<Rightarrow> 46 # toLowerCase e)"

definition isAccepted :: "case_mapping \<Rightarrow> uploader_props \<Rightarrow> js_file \<Rightarrow> bool" where
  "isAccepted toLowerCase props f =
     list_ex (\<lambda>t. t = file_type f \<or> t = fileExtension toLowerCase f \<or> t = str ''*/*'')
       (acceptedTypes props)"

definition validateFile :: "case_mapping \<Rightarrow> uploader_props \<Rightarrow> js_file \<Rightarrow> rejection option" where
  "validateFile toLowerCase props f =
     (if file_size f > maxSize props * 1024 * 1024 then Some (FileSizeExceeds (maxSize props))
      else if accept props \<noteq> str ''*/*'' \<and> \<not> isAccepted toLowerCase props f
      then Some (FileTypeNotSupported (accept props))
      else None)"

datatype upload_status = Uploading | Completed | Failed

record uploadingFile =
  up_file :: js_file
  up_progress :: nat
  up_status :: upload_status
  up_url :: "jsstring option"
  up_error :: "jsstring option"

datatype upload_toast =
  Rejected rejection | UploadedSuccessfully jsstring | FailedToUpload jsstring jsstring

text \<open>What the storage service answers to one upload: the public URL, or an error.\<close>

datatype storage_result = Stored jsstring | StorageError jsstring

text \<open>
  The state around \<open>uploadFile\<close>: the tracked uploads, and a log of every effect the
  function has (toasts, the two callbacks of the properties, transfers handed to the
  storage service as (bucket, path, file)).
\<close>

record uploader_state =
  uploadingFiles :: "uploadingFile list"
  upload_toasts :: "upload_toast list"
  onUploadError_calls :: "(rejection + jsstring) list"
  onUploadComplete_calls :: "(jsstring \<times> jsstring) list"
  transfers :: "(jsstring \<times> jsstring \<times> js_file) list"

text \<open>
  \<open>uploadFile\<close>, followed through its one await. \<open>rnd\<close> is the random part of the
  stored name, \<open>res\<close> the answer of the storage service to the transfer (read only
  when a transfer is made).
\<close>

definition uploadFile ::
  "case_mapping \<Rightarrow> uploader_props \<Rightarrow> jsstring \<Rightarrow> storage_result \<Rightarrow> js_file \<Rightarrow> uploader_state
     \<Rightarrow> uploader_state" where
  "uploadFile toLowerCase props rnd res f st =
     (case validateFile toLowerCase props f of
        Some validation \<Rightarrow>
          st\<lparr>upload_toasts := upload_toasts st @ [Rejected validation],
             onUploadError_calls := onUploadError_calls st @ [Inl validation]\<rparr>
      | None \<Rightarrow>
          (let fileExt = (case pop (split 46 (file_name f)) of
                            None \<Rightarrow> str ''undefined'' | Some e \<Rightarrow> e);
               fileName = rnd @ [46] @ fileExt;
               filePath = (if folder props \<noteq> [] then folder props @ [47] @ fileName
                           else fileName);
               newFile = \<lparr>up_file = f, up_progress = 0, up_status = Uploading,
                          up_url = None, up_error = None\<rparr>;
               st1 = st\<lparr>uploadingFiles := uploadingFiles st @ [newFile],
                         transfers := transfers st @ [(bucket props, filePath, f)]\<rparr>
           in case res of
                Stored publicUrl \<Rightarrow>
                  st1\<lparr>uploadingFiles :=
                         map (\<lambda>u. if up_file u = f
                                   then u\<lparr>up_status := Completed, up_url := Some publicUrl,
                                          up_progress := 100\<rparr>
                                   else u) (uploadingFiles st1),
                       upload_toasts := upload_toasts st1 @ [UploadedSuccessfully (file_name f)],
                       onUploadComplete_calls :=
                         onUploadComplete_calls st1 @ [(publicUrl, file_name f)]\<rparr>
              | StorageError message \<Rightarrow>
                  let errorMessage = (if message = [] then str ''Upload failed'' else message)
                  in st1\<lparr>uploadingFiles :=
                         map (\<lambda>u. if up_file u = f
                                   then u\<lparr>up_status := Failed, up_error := Some errorMessage,
                                          up_progress := 0\<rparr>
                                   else u) (uploadingFiles st1),
                       upload_toasts :=
                         upload_toasts st1 @ [FailedToUpload (file_name f) errorMessage],
                       onUploadError_calls := onUploadError_calls st1 @ [Inr errorMessage]\<rparr>))"

text \<open>An uploader for videos with the default limit of 100 MB, a video of 150 MB and a text file.\<close>

definition videoProps :: uploader_props where
  "videoProps = \<lparr>bucket = str ''course-videos'', folder = str ''lessons'',
                  accept = str ''.mp4, .webm,video/mp4'', maxSize = 100\<rparr>"

definition bigVideo :: js_file where
  "bigVideo = \<lparr>file_handle = 1, file_name = str ''lecture.mp4'',
                file_size = 150 * 1024 * 1024, file_type = str ''video/mp4''\<rparr>"

definition notesFile :: js_file where
  "notesFile = \<lparr>file_handle = 2, file_name = str ''notes.final.TXT'',
                 file_size = 2048, file_type = str ''text/plain''\<rparr>"

definition noUploads :: uploader_state where
  "noUploads = \<lparr>uploadingFiles = [], upload_toasts = [], onUploadError_calls = [],
                 onUploadComplete_calls = [], transfers = []\<rparr>"

section \<open>Quizzes (components/QuizManager.tsx)\<close>

record question =
  question_id :: jsstring
  question_text :: jsstring
  options :: "jsstring list"
  correctAnswer :: nat
  explanation :: "jsstring option"

record quiz =
  quiz_id :: jsstring
  quiz_title :: jsstring
  quiz_description :: "jsstring option"
  quiz_questions :: "question list"
  passing_score :: nat
  time_limit_minutes :: "nat option"

record quizData =
  qd_lesson_id :: jsstring
  qd_title :: jsstring
  qd_description :: "jsstring option"
  qd_questions :: "question list"
  qd_passing_score :: nat
  qd_time_limit_minutes :: "nat option"

text \<open>The requests \<open>QuizManager\<close> sends to the \<open>quizzes\<close> table.\<close>

datatype quiz_request =
  UpdateQuiz jsstring quizData | InsertQuiz quizData | SelectQuizzes jsstring
  | DeleteQuiz jsstring

datatype quiz_toast =
  AddAtLeastOneQuestion | FillInAllQuestionFields | QuizUpdated | QuizCreated
  | FailedToSaveQuiz

record quiz_form =
  form_title :: jsstring
  form_description :: jsstring
  passingScore :: nat
  timeLimit :: "nat option"
  questions :: "question list"
  editingQuiz :: "quiz option"
  dialogOpen :: bool
  quiz_toasts :: "quiz_toast list"
  quiz_requests :: "quiz_request list"
  onQuizCreated_calls :: nat

text \<open>The test of \<open>handleSubmit\<close> for a question that is not filled in.\<close>

definition invalidQuestion :: "question \<Rightarrow> bool" where
  "invalidQuestion q \<longleftrightarrow> trim (question_text q) = [] \<or> list_ex (\<lambda>opt. trim opt = []) (options q)"

text \<open>
  \<open>handleSubmit\<close>. \<open>failed\<close> says whether the service reports an error for the write
  (read only when the write is sent). The values \<open>description || null\<close> and
  \<open>timeLimit || null\<close> turn the empty description and a limit of 0 into null.
\<close>

definition quiz_handleSubmit :: "jsstring \<Rightarrow> bool \<Rightarrow> quiz_form \<Rightarrow> quiz_form" where
  "quiz_handleSubmit lessonId failed st =
     (if length (questions st) = 0
      then st\<lparr>quiz_toasts := quiz_toasts st @ [AddAtLeastOneQuestion]\<rparr>
      else if length (filter invalidQuestion (questions st)) > 0
      then st\<lparr>quiz_toasts := quiz_toasts st @ [FillInAllQuestionFields]\<rparr>
      else
        (let data = \<lparr>qd_lesson_id = lessonId, qd_title = form_title st,
                      qd_description = (if form_description st = [] then None
                                        else Some (form_description st)),
                      qd_questions = questions st,
                      qd_passing_score = passingScore st,
                      qd_time_limit_minutes = (case timeLimit st of
                                                 None \<Rightarrow> None
                                               | Some t \<Rightarrow> if t = 0 then None else Some t)\<rparr>;
             request = (case editingQuiz st of
                          Some q \<Rightarrow> UpdateQuiz (quiz_id q) data
                        | None \<Rightarrow> InsertQuiz data);
             st1 = st\<lparr>quiz_requests := quiz_requests st @ [request]\<rparr>
         in if failed then st1\<lparr>quiz_toasts := quiz_toasts st1 @ [FailedToSaveQuiz]\<rparr>
            else st1\<lparr>quiz_toasts := quiz_toasts st1 @
                        [case editingQuiz st of Some q \<Rightarrow> QuizUpdated | None \<Rightarrow> QuizCreated],
                      dialogOpen := False,
                      quiz_requests := quiz_requests st1 @ [SelectQuizzes lessonId],
                      onQuizCreated_calls := onQuizCreated_calls st1 + 1\<rparr>))"

text \<open>The requests that write a draft: the create and the update.\<close>

fun is_write :: "quiz_request \<Rightarrow> bool" where
  "is_write (UpdateQuiz _ _) = True"
| "is_write (InsertQuiz _) = True"
| "is_write _ = False"

text \<open>A question with an empty second option, and a draft of a new quiz.\<close>

definition blankOption :: question where
  "blankOption = \<lparr>question_id = str ''q1'', question_text = str ''How do you greet?'',
     options = [str ''E kaaro'', [], str ''Nagode'', str ''Daalu''], correctAnswer = 0,
     explanation = None\<rparr>"

definition draftQuiz :: "question list \<Rightarrow> quiz_form" where
  "draftQuiz qs = \<lparr>form_title = str ''Greetings'', form_description = [], passingScore = 70,
     timeLimit = None, questions = qs, editingQuiz = None, dialogOpen = True,
     quiz_toasts = [], quiz_requests = [], onQuizCreated_calls = 0\<rparr>"

section \<open>Lessons (LessonManagement)\<close>

datatype lesson_type = Video | Text | Quiz

record lesson =
  lesson_id :: nat
  lesson_course_id :: nat
  lesson_title :: jsstring
  lesson_description :: jsstring
  lesson_kind :: lesson_type
  order_index :: nat
  video_url :: "jsstring option"
  duration_minutes :: "nat option"
  lesson_content :: "jsstring option"

text \<open>
  The \<open>lessons\<close> table of the data service is a list of rows. \<open>lessons\<close> is the
  component's copy of the rows of its course, as \<open>fetchLessons\<close> last read them
  (ordered by \<open>order_index\<close>).
\<close>

record lessons_state =
  lessons_table :: "lesson list"
  lessons :: "lesson list"
  editingLesson :: "lesson option"

definition fetchLessons :: "nat \<Rightarrow> lessons_state \<Rightarrow> lessons_state" where
  "fetchLessons courseId st =
     st\<lparr>lessons := sort_key order_index
                      (filter (\<lambda>l. lesson_course_id l = courseId) (lessons_table st))\<rparr>"

text \<open>What the lesson form holds when it is submitted.\<close>

record lesson_form =
  lf_title :: jsstring
  lf_description :: jsstring
  lf_type :: lesson_type
  lf_video_url :: jsstring
  lf_duration_minutes :: "nat option"
  lf_content :: jsstring

text \<open>
  \<open>handleSubmit\<close> of the lesson dialog; \<open>newId\<close> is the key the service gives an
  inserted row. A duration that does not parse or is 0 is stored as null.
\<close>

definition lesson_handleSubmit :: "nat \<Rightarrow> nat \<Rightarrow> lesson_form \<Rightarrow> lessons_state \<Rightarrow> lessons_state" where
  "lesson_handleSubmit courseId newId form st =
     (let lessonData = \<lparr>lesson_id = (case editingLesson st of None \<Rightarrow> newId
                                      | Some e \<Rightarrow> lesson_id e),
                         lesson_course_id = courseId,
                         lesson_title = lf_title form,
                         lesson_description = lf_description form,
                         lesson_kind = lf_type form,
                         order_index = (case editingLesson st of
                                          Some e \<Rightarrow> order_index e
                                        | None \<Rightarrow> length (lessons st)),
                         video_url = (if lf_type form = Video then Some (lf_video_url form)
                                      else None),
                         duration_minutes =
                           (if lf_type form = Video
                            then (case lf_duration_minutes form of
                                    None \<Rightarrow> None
                                  | Some d \<Rightarrow> if d = 0 then None else Some d)
                            else None),
                         lesson_content = (if lf_type form = Quiz then None
                                           else Some (lf_content form))\<rparr>;
          table = (case editingLesson st of
                     Some e \<Rightarrow> map (\<lambda>l. if lesson_id l = lesson_id e then lessonData else l)
                                 (lessons_table st)
                   | None \<Rightarrow> lessons_table st @ [lessonData])
      in fetchLessons courseId (st\<lparr>lessons_table := table, editingLesson := None\<rparr>))"

text \<open>\<open>handleDelete\<close>, once the teacher has confirmed: the row is deleted and the list read again.\<close>

definition lesson_handleDelete :: "nat \<Rightarrow> nat \<Rightarrow> lessons_state \<Rightarrow> lessons_state" where
  "lesson_handleDelete courseId lessonId st =
     fetchLessons courseId
       (st\<lparr>lessons_table := filter (\<lambda>l. lesson_id l \<noteq> lessonId) (lessons_table st)\<rparr>)"

text \<open>\<open>reorderLessons\<close>: every lesson of the given list gets its position as its index.\<close>

definition set_order_index :: "nat \<Rightarrow> nat \<Rightarrow> lesson list \<Rightarrow> lesson list" where
  "set_order_index lid i table =
     map (\<lambda>l. if lesson_id l = lid then l\<lparr>order_index := i\<rparr> else l) table"

definition reorderLessons :: "nat \<Rightarrow> lesson list \<Rightarrow> lessons_state \<Rightarrow> lessons_state" where
  "reorderLessons courseId ls st =
     fetchLessons courseId
       (st\<lparr>lessons_table :=
             fold (\<lambda>(l, i). set_order_index (lesson_id l) i)
               (zip ls [0 ..< length ls]) (lessons_table st)\<rparr>)"

text \<open>A course with three lessons at the indexes 0, 1 and 2, and a form for one more.\<close>

definition demoLesson :: "nat \<Rightarrow> nat \<Rightarrow> lesson" where
  "demoLesson i k = \<lparr>lesson_id = i, lesson_course_id = 1, lesson_title = str ''Lesson'',
     lesson_description = [], lesson_kind = Text, order_index = k, video_url = None,
     duration_minutes = None, lesson_content = Some (str ''Body'')\<rparr>"

definition threeLessons :: lessons_state where
  "threeLessons = \<lparr>lessons_table = [demoLesson 10 0, demoLesson 11 1, demoLesson 12 2],
                    lessons = [demoLesson 10 0, demoLesson 11 1, demoLesson 12 2],
                    editingLesson = None\<rparr>"

definition demoForm :: lesson_form where
  "demoForm = \<lparr>lf_title = str ''New'', lf_description = [], lf_type = Text,
                lf_video_url = [], lf_duration_minutes = None, lf_content = str ''Text''\<rparr>"

section \<open>Notifications (NotificationCenter)\<close>

datatype notification_type =
  CourseEnrollment | LessonCompleted | Achievement | CourseUpdated | System

record notification =
  notif_id :: jsstring
  notif_type :: notification_type
  notif_title :: jsstring
  notif_message :: jsstring
  notif_read :: bool
  notif_created_at :: jsstring
  notif_action_url :: "jsstring option"

record notification_state =
  notifications :: "notification list"
  unreadCount :: nat
  info_toasts :: nat

text \<open>The handler of the change feed for an inserted notification row.\<close>

definition on_insert :: "notification \<Rightarrow> notification_state \<Rightarrow> notification_state" where
  "on_insert payload_new st =
     st\<lparr>notifications := payload_new # notifications st,
        unreadCount := unreadCount st + 1,
        info_toasts := info_toasts st + 1\<rparr>"

text \<open>One notification, and a centre that holds none.\<close>

definition demoNotification :: notification where
  "demoNotification = \<lparr>notif_id = str ''5'', notif_type = CourseEnrollment,
     notif_title = str ''New Course Enrollment'', notif_message = str ''A student enrolled'',
     notif_read = False, notif_created_at = str ''2024-01-01T00:00:00Z'',
     notif_action_url = None\<rparr>"

definition emptyNotifications :: notification_state where
  "emptyNotifications = \<lparr>notifications = [], unreadCount = 0, info_toasts = 0\<rparr>"

section \<open>Properties of the rounding\<close>

lemma roundHalfEven_int [simp]: "roundHalfEven (of_int k) = k"
  by (simp add: roundHalfEven_def)

lemma binaryExponent_bounds:
  assumes "0 < r"
  shows "power_int 2 (binaryExponent r) \<le> r" "r < power_int 2 (binaryExponent r + 1)"
proof -
  obtain p q where pq: "quotient_of r = (p, q)" by (cases "quotient_of r")
  then have q: "0 < q" and r: "r = of_int p / of_int q"
    using quotient_of_denom_pos quotient_of_div by auto
  have p: "0 < p" using assms q r by (simp add: zero_less_divide_iff)
  let ?bp = "bitlen p" and ?bq = "bitlen q"
  have bp: "2 ^ nat (?bp - 1) \<le> p" "p < 2 ^ nat ?bp" using bitlen_bounds[OF p] by auto
  have bq: "2 ^ nat (?bq - 1) \<le> q" "q < 2 ^ nat ?bq" using bitlen_bounds[OF q] by auto
  have pos: "1 \<le> ?bp" "1 \<le> ?bq"
    using p q bitlen_eq_zero_iff[of p] bitlen_eq_zero_iff[of q] bitlen_nonneg[of p] bitlen_nonneg[of q]
    by linarith+
  have P1: "(2::rat) ^ nat (?bp - 1) \<le> of_int p" using bp(1)
    by (metis of_int_le_iff of_int_numeral of_int_power)
  have P2: "(of_int p :: rat) < 2 ^ nat ?bp" using bp(2)
    by (metis of_int_less_iff of_int_numeral of_int_power)
  have Q1: "(2::rat) ^ nat (?bq - 1) \<le> of_int q" using bq(1)
    by (metis of_int_le_iff of_int_numeral of_int_power)
  have Q2: "(of_int q :: rat) < 2 ^ nat ?bq" using bq(2)
    by (metis of_int_less_iff of_int_numeral of_int_power)
  have qpos: "(0::rat) < of_int q" using q by simp
  have ppos: "(0::rat) < of_int p" using p by simp
  have up: "r < power_int 2 (?bp - ?bq + 1)"
  proof -
    have "power_int (2::rat) (?bp - ?bq + 1) = power_int 2 ?bp / power_int 2 (?bq - 1)"
      by (simp add: power_int_diff[symmetric] algebra_simps)
    also have "\<dots> = 2 ^ nat ?bp / 2 ^ nat (?bq - 1)"
      using pos by (simp add: power_int_def)
    finally have eq: "power_int (2::rat) (?bp - ?bq + 1) = 2 ^ nat ?bp / 2 ^ nat (?bq - 1)" .
    have "of_int p / of_int q < (2::rat) ^ nat ?bp / of_int q"
      using P2 qpos by (simp add: divide_strict_right_mono)
    also have "\<dots> \<le> 2 ^ nat ?bp / 2 ^ nat (?bq - 1)"
      using Q1 by (simp add: frac_le)
    finally show ?thesis using eq r by simp
  qed
  have low: "power_int 2 (?bp - ?bq - 1) < r"
  proof -
    have "power_int (2::rat) (?bp - ?bq - 1) = power_int 2 (?bp - 1) / power_int 2 ?bq"
      by (simp add: power_int_diff[symmetric] algebra_simps)
    also have "\<dots> = 2 ^ nat (?bp - 1) / 2 ^ nat ?bq"
      using pos by (simp add: power_int_def)
    finally have eq: "power_int (2::rat) (?bp - ?bq - 1) = 2 ^ nat (?bp - 1) / 2 ^ nat ?bq" .
    have "(2::rat) ^ nat (?bp - 1) / 2 ^ nat ?bq < 2 ^ nat (?bp - 1) / of_int q"
      using Q2 qpos by (simp add: divide_strict_left_mono)
    also have "\<dots> \<le> of_int p / of_int q"
      using P1 qpos by (simp add: divide_right_mono)
    finally show ?thesis using eq r by simp
  qed
  show "power_int 2 (binaryExponent r) \<le> r"
    using low by (auto simp: binaryExponent_def pq)
  show "r < power_int 2 (binaryExponent r + 1)"
    using up by (auto simp: binaryExponent_def pq)
qed

lemma power_int_2_less_imp:
  assumes "power_int (2::rat) m < power_int 2 n"
  shows "m < n"
proof (rule ccontr)
  assume "\<not> m < n"
  then have "n \<le> m" by simp
  then have "power_int (2::rat) n \<le> power_int 2 m"
    by (rule power_int_increasing) simp
  then show False using assms by simp
qed

lemma binaryExponent_eq:
  assumes "power_int 2 e \<le> r" "r < power_int 2 (e + 1)"
  shows "binaryExponent r = e"
proof -
  have "0 < r" using assms(1) zero_less_power_int[of "2::rat" e] by linarith
  note b = binaryExponent_bounds[OF this]
  have "power_int (2::rat) e < power_int 2 (binaryExponent r + 1)"
    using assms(1) b(2) by linarith
  then have "e < binaryExponent r + 1"
    by (rule power_int_2_less_imp)
  moreover have "power_int (2::rat) (binaryExponent r) < power_int 2 (e + 1)"
    using assms(2) b(1) by linarith
  then have "binaryExponent r < e + 1"
    by (rule power_int_2_less_imp)
  ultimately show ?thesis by simp
qed

lemma roundHalfEven_zero [simp]: "roundHalfEven 0 = 0"
  using roundHalfEven_int[of 0] by simp


lemma toDouble_zero: "toDouble 0 = Num 0"
  by (simp add: toDouble_def)

text \<open>The integers up to \<open>2^53\<close> are doubles: they convert to themselves.\<close>

lemma toDouble_int:
  assumes "0 < n" "n \<le> 2 ^ 53"
  shows "toDouble (of_int n) = Num (of_int n)"
proof (cases "n = 2 ^ 53")
  case True
  have "binaryExponent (2 ^ 53) = 53"
    by (rule binaryExponent_eq) simp_all
  then have "ulp (2 ^ 53) = 2" by (simp add: ulp_def)
  moreover have "roundHalfEven (2 ^ 53 / 2) = 2 ^ 52"
  proof -
    have "(2::rat) ^ 53 / 2 = of_int (2 ^ 52)" by simp
    then show ?thesis by (simp only: roundHalfEven_int)
  qed
  ultimately show ?thesis using True by (simp add: toDouble_def)
next
  case False
  let ?r = "of_int n :: rat"
  let ?e = "binaryExponent ?r"
  have rpos: "0 < ?r" using assms by simp
  note b = binaryExponent_bounds[OF rpos]
  have "?r < 2 ^ 53" using assms False
    by (metis of_int_less_iff of_int_numeral of_int_power order_le_less)
  then have "power_int (2::rat) ?e < power_int 2 53" using b(1) by simp
  then have e53: "?e < 53" by (rule power_int_2_less_imp)
  have "power_int (2::rat) 0 \<le> ?r" using assms by simp
  then have "power_int (2::rat) 0 < power_int 2 (?e + 1)" using b(2) by linarith
  then have e0: "0 \<le> ?e" using power_int_2_less_imp by fastforce
  have u: "ulp ?r = 1 / 2 ^ nat (52 - ?e)"
    using e0 e53 by (simp add: ulp_def power_int_def max_def field_simps)
  have "?r / ulp ?r = of_int (n * 2 ^ nat (52 - ?e))"
    by (simp add: u)
  then have "roundHalfEven (?r / ulp ?r) = n * 2 ^ nat (52 - ?e)"
    by (simp only: roundHalfEven_int)
  then have v: "of_int (roundHalfEven (?r / ulp ?r)) * ulp ?r = ?r"
    by (simp add: u)
  have "?r < 2 ^ 1024"
  proof -
    have "(2::rat) ^ 53 \<le> 2 ^ 1024" by (rule power_increasing) simp_all
    then show ?thesis using \<open>?r < 2 ^ 53\<close> by linarith
  qed
  then show ?thesis by (simp add: toDouble_def v)
qed

lemma toDouble_numeral:
  "(numeral k :: int) \<le> 2 ^ 53 \<Longrightarrow> toDouble (numeral k) = Num (numeral k)"
  using toDouble_int[of "numeral k"] by simp


section \<open>Properties of the sort\<close>

subsection \<open>The sort permutes\<close>



lemma set_insert_cmp: "set (insert_cmp cmp x xs) = insert x (set xs)"
  by (induction xs) auto

lemma set_sort_cmp: "set (sort_cmp cmp xs) = set xs"
  by (induction xs) (auto simp: set_insert_cmp)

subsection \<open>The sort orders\<close>



subsection \<open>The sort is stable\<close>



subsection \<open>Sorting twice\<close>



subsection \<open>The four comparison functions\<close>


















lemma set_sortCourses: "set (sortCourses key xs) = set xs"
  by (simp add: sortCourses_def set_sort_cmp)






lemma filterCourses_filter:
  "filterCourses toLowerCase q lang lvl cs = filter (keeps toLowerCase q lang lvl) cs"
proof -
  have "filter (keeps toLowerCase q lang lvl) cs
        = filter (\<lambda>c. (q = [] \<or> matchesQuery toLowerCase q c)
     \<and> (lang = [] \<or> lang = str ''all'' \<or> matchesLanguage toLowerCase lang c)
     \<and> (lvl = [] \<or> lvl = str ''all'' \<or> matchesLevel toLowerCase lvl c)) cs"
    by (rule filter_cong) (simp_all add: keeps_def)
  then show ?thesis
    by (simp add: filterCourses_def Let_def)
qed

section \<open>The filter and sort pipeline\<close>

text \<open>Unfolding sets for evaluating the parser and the pipeline on concrete catalogues.\<close>

lemmas parse_defs = parsePrice_def parseFloat_def str_def naira_def isDigit_def isWhiteSpace_def
  toDouble_numeral unsignedLiteral_def decimalValue_def scale10_def

lemmas pipeline_defs = applyFilters_def filterCourses_def sortCourses_def cmpPopular_def
  cmpRating_def cmpPriceLow_def cmpPriceHigh_def matchesQuery_def matchesLanguage_def
  matchesLevel_def asciiLowerCase_def asciiLowerUnit_def




subsection \<open>Prices that do not parse\<close>

lemma parseFloat_no_literal:
  assumes "\<not> isWhiteSpace c" "\<not> isDigit c" "c \<noteq> 43" "c \<noteq> 45" "c \<noteq> 46" "c \<noteq> 73"
  shows "parseFloat (c # cs) = NaN"
  using assms
  by (simp add: parseFloat_def unsignedLiteral_def decimalValue_def str_def)

lemma parseFloat_empty: "parseFloat [] = NaN"
  by (simp add: parseFloat_def unsignedLiteral_def decimalValue_def str_def)

lemma sub_NaN: "x = NaN \<or> y = NaN \<Longrightarrow> sub x y = NaN"
  by (cases x; cases y) auto

text \<open>
  Claim C2, as the code has it. Under \<open>price-low\<close> and \<open>price-high\<close> the price
  \<open>Free\<close> counts as 0; every other price has the naira sign and the commas removed and
  is read by \<open>parseFloat\<close>. A price that is then empty, or starts with a character that
  is neither white space, a sign, a digit, a point nor the letter I, is NaN and not 0.
  Nothing fails on it: a comparison with such a price returns NaN, which the sort takes
  for a tie, so the two courses compared keep their order.
\<close>

theorem parsePrice_malformed:
  "parsePrice (str ''Free'') = Num 0
   \<and> (p \<noteq> str ''Free'' \<longrightarrow> parsePrice p = parseFloat (filter (\<lambda>c. c \<noteq> naira \<and> c \<noteq> 44) p))
   \<and> (p \<noteq> str ''Free''
        \<and> (case filter (\<lambda>c. c \<noteq> naira \<and> c \<noteq> 44) p of
              [] \<Rightarrow> True
            | c # cs \<Rightarrow> \<not> isWhiteSpace c \<and> \<not> isDigit c \<and> c \<notin> {43, 45, 46, 73})
        \<longrightarrow> parsePrice p = NaN)
   \<and> (parsePrice (price a) = NaN \<or> parsePrice (price b) = NaN \<longrightarrow>
        cmpPriceLow a b = NaN \<and> cmpPriceHigh a b = NaN
        \<and> sort_cmp cmpPriceLow [a, b] = [a, b] \<and> sort_cmp cmpPriceHigh [a, b] = [a, b])"
proof -
  have "parsePrice (str ''Free'') = Num 0"
    by (simp add: parsePrice_def)
  moreover have "parsePrice p = NaN"
    if "p \<noteq> str ''Free''"
      "case filter (\<lambda>c. c \<noteq> naira \<and> c \<noteq> 44) p of
              [] \<Rightarrow> True
            | c # cs \<Rightarrow> \<not> isWhiteSpace c \<and> \<not> isDigit c \<and> c \<notin> {43, 45, 46, 73}"
    using that
    by (cases "filter (\<lambda>c. c \<noteq> naira \<and> c \<noteq> 44) p")
      (simp_all add: parsePrice_def parseFloat_empty parseFloat_no_literal)
  moreover have "cmpPriceLow a b = NaN \<and> cmpPriceHigh a b = NaN
        \<and> sort_cmp cmpPriceLow [a, b] = [a, b] \<and> sort_cmp cmpPriceHigh [a, b] = [a, b]"
    if "parsePrice (price a) = NaN \<or> parsePrice (price b) = NaN"
  proof -
    have "cmpPriceLow a b = NaN" "cmpPriceHigh a b = NaN"
      using that sub_NaN by (auto simp: cmpPriceLow_def cmpPriceHigh_def)
    then show ?thesis by simp
  qed
  ultimately show ?thesis
    by (simp add: parsePrice_def)
qed

text \<open>The price \<open>TBD\<close> of \<open>tbdCatalogue\<close>, and the price of the first mock course.\<close>

theorem parsePrice_malformed_witness:
  "parsePrice (str ''TBD'') = NaN
   \<and> sort_cmp cmpPriceLow [tbdCatalogue ! 2, tbdCatalogue ! 1] = [tbdCatalogue ! 2, tbdCatalogue ! 1]
   \<and> sort_cmp cmpPriceHigh [tbdCatalogue ! 2, tbdCatalogue ! 1] = [tbdCatalogue ! 2, tbdCatalogue ! 1]
   \<and> parsePrice (naira # str ''15,000'') = parseFloat (str ''15000'')"
proof -
  note tbd = parsePrice_malformed[of "str ''TBD''" "tbdCatalogue ! 2" "tbdCatalogue ! 1"]
  note naira = parsePrice_malformed[of "naira # str ''15,000''" "tbdCatalogue ! 2" "tbdCatalogue ! 1"]
  have nan: "parsePrice (str ''TBD'') = NaN"
    by (rule tbd[THEN conjunct2, THEN conjunct2, THEN conjunct1, THEN mp])
      (simp add: str_def naira_def isWhiteSpace_def isDigit_def)
  have "price (tbdCatalogue ! 1) = str ''TBD''"
    by (simp add: tbdCatalogue_def)
  then have "parsePrice (price (tbdCatalogue ! 2)) = NaN \<or> parsePrice (price (tbdCatalogue ! 1)) = NaN"
    using nan by simp
  then have tie: "cmpPriceLow (tbdCatalogue ! 2) (tbdCatalogue ! 1) = NaN
      \<and> cmpPriceHigh (tbdCatalogue ! 2) (tbdCatalogue ! 1) = NaN
      \<and> sort_cmp cmpPriceLow [tbdCatalogue ! 2, tbdCatalogue ! 1] = [tbdCatalogue ! 2, tbdCatalogue ! 1]
      \<and> sort_cmp cmpPriceHigh [tbdCatalogue ! 2, tbdCatalogue ! 1] = [tbdCatalogue ! 2, tbdCatalogue ! 1]"
    by (rule tbd[THEN conjunct2, THEN conjunct2, THEN conjunct2, THEN mp])
  have "naira # str ''15,000'' \<noteq> str ''Free''"
    by (simp add: str_def naira_def)
  then have "parsePrice (naira # str ''15,000'')
      = parseFloat (filter (\<lambda>c. c \<noteq> naira \<and> c \<noteq> 44) (naira # str ''15,000''))"
    by (rule naira[THEN conjunct2, THEN conjunct1, THEN mp])
  then have "parsePrice (naira # str ''15,000'') = parseFloat (str ''15000'')"
    by (simp add: str_def naira_def)
  then show ?thesis using nan tie by blast
qed

text \<open>
  The price \<open>TBD\<close> is not 0: under \<open>price-low\<close> a course at 0 would come first, the
  course at \<open>TBD\<close> stays behind the course at 100.
\<close>

theorem malformed_price_not_zero:
  "parsePrice (str ''TBD'') = NaN
   \<and> parsePrice (str ''TBD'') \<noteq> Num 0
   \<and> map course_id (applyFilters asciiLowerCase [] [] [] (str ''price-low'') (rev tbdCatalogue)) = [3, 2, 1]
   \<and> map course_id (rev tbdCatalogue) = [3, 2, 1]
   \<and> map course_id (applyFilters asciiLowerCase [] [] [] (str ''price-low'') (take 2 (rev tbdCatalogue))) = [3, 2]"
  by (simp add: pipeline_defs tbdCatalogue_def parse_defs)

subsection \<open>Which courses pass the filters\<close>

lemma set_applyFilters:
  "set (applyFilters toLowerCase q lang lvl key cs) = {c \<in> set cs. keeps toLowerCase q lang lvl c}"
  by (simp add: applyFilters_def set_sortCourses filterCourses_filter)

lemma sortCourses_single: "sortCourses key [c] = [c]"
  by (simp add: sortCourses_def)

text \<open>
  Claim C3. A course is in the output of \<open>applyFilters\<close> exactly when it is in the
  catalogue and passes every filter that is set: when the query is not empty, the query
  in lower case occurs in the title, the instructor or the language in lower case; when
  a language other than \<open>all\<close> is selected, the course's language equals it in lower
  case; the same for the level. In particular the query \<open>yoruba\<close> over a course of
  language \<open>Yoruba\<close> and a course of language \<open>Igbo\<close> with no \<open>yoruba\<close> in its title
  or instructor returns the first course alone, the case mapping being one that lowers
  the ASCII letters.
\<close>

theorem applyFilters_membership:
  "(c \<in> set (applyFilters toLowerCase q lang lvl key cs) \<longleftrightarrow>
      c \<in> set cs
      \<and> (q \<noteq> [] \<longrightarrow>
           includes_str (toLowerCase (title c)) (toLowerCase q)
           \<or> includes_str (toLowerCase (instructor c)) (toLowerCase q)
           \<or> includes_str (toLowerCase (language c)) (toLowerCase q))
      \<and> (lang \<noteq> [] \<and> lang \<noteq> str ''all'' \<longrightarrow> toLowerCase (language c) = toLowerCase lang)
      \<and> (lvl \<noteq> [] \<and> lvl \<noteq> str ''all'' \<longrightarrow> toLowerCase (level c) = toLowerCase lvl))
   \<and> (lowers_ascii toLowerCase
        \<and> language c1 = str ''Yoruba'' \<and> language c2 = str ''Igbo''
        \<and> \<not> includes_str (toLowerCase (title c2)) (str ''yoruba'')
        \<and> \<not> includes_str (toLowerCase (instructor c2)) (str ''yoruba'')
        \<longrightarrow> applyFilters toLowerCase (str ''yoruba'') [] [] key [c1, c2] = [c1])"
proof -
  have ascii: "list_all (\<lambda>c. c < 128) (str ''yoruba'')" "list_all (\<lambda>c. c < 128) (str ''Yoruba'')"
    "list_all (\<lambda>c. c < 128) (str ''Igbo'')"
    by (simp_all add: str_def)
  have yoruba: "asciiLowerCase (str ''yoruba'') = str ''yoruba''"
    "asciiLowerCase (str ''Yoruba'') = str ''yoruba''"
    "asciiLowerCase (str ''Igbo'') = str ''igbo''"
    "includes_str (str ''yoruba'') (str ''yoruba'')"
    "\<not> includes_str (str ''igbo'') (str ''yoruba'')"
    "str ''yoruba'' \<noteq> []"
    by (simp_all add: asciiLowerCase_def asciiLowerUnit_def str_def)
  have "c \<in> set (applyFilters toLowerCase q lang lvl key cs) \<longleftrightarrow>
      c \<in> set cs
      \<and> (q \<noteq> [] \<longrightarrow>
           includes_str (toLowerCase (title c)) (toLowerCase q)
           \<or> includes_str (toLowerCase (instructor c)) (toLowerCase q)
           \<or> includes_str (toLowerCase (language c)) (toLowerCase q))
      \<and> (lang \<noteq> [] \<and> lang \<noteq> str ''all'' \<longrightarrow> toLowerCase (language c) = toLowerCase lang)
      \<and> (lvl \<noteq> [] \<and> lvl \<noteq> str ''all'' \<longrightarrow> toLowerCase (level c) = toLowerCase lvl)"
    unfolding set_applyFilters keeps_def matchesQuery_def matchesLanguage_def matchesLevel_def
    by blast
  moreover have "applyFilters toLowerCase (str ''yoruba'') [] [] key [c1, c2] = [c1]"
    if low: "lowers_ascii toLowerCase"
      and "language c1 = str ''Yoruba''" "language c2 = str ''Igbo''"
      "\<not> includes_str (toLowerCase (title c2)) (str ''yoruba'')"
      "\<not> includes_str (toLowerCase (instructor c2)) (str ''yoruba'')"
  proof -
    have "toLowerCase (str ''yoruba'') = str ''yoruba''"
      "toLowerCase (str ''Yoruba'') = str ''yoruba''"
      "toLowerCase (str ''Igbo'') = str ''igbo''"
      using low ascii yoruba(1,2,3) by (simp_all add: lowers_ascii_def)
    then show ?thesis
      using that yoruba(4,5,6)
      by (simp add: applyFilters_def filterCourses_def matchesQuery_def sortCourses_single)
  qed
  ultimately show ?thesis by blast
qed

text \<open>The first two mock courses under the query \<open>yoruba\<close>, lowered by the ASCII mapping.\<close>

theorem applyFilters_membership_witness:
  "applyFilters asciiLowerCase (str ''yoruba'') [] [] (str ''rating'') (take 2 mockCourses)
     = [mockCourses ! 0]
   \<and> mockCourses ! 1
       \<notin> set (applyFilters asciiLowerCase (str ''yoruba'') (str ''all'') [] (str ''rating'')
                mockCourses)
   \<and> mockCourses ! 0
       \<in> set (applyFilters asciiLowerCase (str ''YORUBA'') (str ''all'') (str ''beginner'')
                (str ''rating'') mockCourses)"
proof -
  have ascii: "lowers_ascii asciiLowerCase"
    by (simp add: lowers_ascii_def)
  have facts: "take 2 mockCourses = [mockCourses ! 0, mockCourses ! 1]"
    "language (mockCourses ! 0) = str ''Yoruba''" "language (mockCourses ! 1) = str ''Igbo''"
    "\<not> includes_str (asciiLowerCase (title (mockCourses ! 1))) (str ''yoruba'')"
    "\<not> includes_str (asciiLowerCase (instructor (mockCourses ! 1))) (str ''yoruba'')"
    by (simp_all add: mockCourses_def asciiLowerCase_def asciiLowerUnit_def str_def)
  have more: "asciiLowerCase (str ''yoruba'') = str ''yoruba''" "str ''yoruba'' \<noteq> []"
    "str ''all'' \<noteq> []" "\<not> includes_str (asciiLowerCase (language (mockCourses ! 1))) (str ''yoruba'')"
    "mockCourses ! 0 \<in> set mockCourses"
    "asciiLowerCase (str ''YORUBA'') = str ''yoruba''" "str ''YORUBA'' \<noteq> []"
    "includes_str (asciiLowerCase (title (mockCourses ! 0))) (str ''yoruba'')"
    "str ''beginner'' \<noteq> []" "str ''beginner'' \<noteq> str ''all''"
    "asciiLowerCase (level (mockCourses ! 0)) = asciiLowerCase (str ''beginner'')"
    by (simp_all add: mockCourses_def asciiLowerCase_def asciiLowerUnit_def str_def)
  show ?thesis
    using applyFilters_membership[where toLowerCase = asciiLowerCase and c = "mockCourses ! 1"
        and q = "str ''yoruba''" and lang = "str ''all''" and lvl = "[]" and key = "str ''rating''"
        and cs = mockCourses and ?c1.0 = "mockCourses ! 0" and ?c2.0 = "mockCourses ! 1"]
      applyFilters_membership[where toLowerCase = asciiLowerCase and c = "mockCourses ! 0"
        and q = "str ''YORUBA''" and lang = "str ''all''" and lvl = "str ''beginner''"
        and key = "str ''rating''" and cs = mockCourses and ?c1.0 = "mockCourses ! 0"
        and ?c2.0 = "mockCourses ! 1"]
      ascii facts more
    by simp
qed

subsection \<open>Filtering twice\<close>



subsection \<open>The pipeline on the store\<close>

lemma read_new_array: "snd (new_array xs h) ! fst (new_array xs h) = xs"
  by (simp add: new_array_def)

text \<open>One optional filter step.\<close>

lemma filter_step:
  assumes "r < length h1" "n \<le> r" "n \<le> length h1" "take n h1 = h0"
  shows "\<exists>r' h2. (if b then filter_array p r h1 else Some (r, h1)) = Some (r', h2)
           \<and> r' < length h2 \<and> n \<le> r' \<and> n \<le> length h2 \<and> take n h2 = h0
           \<and> h2 ! r' = (if b then filter p (h1 ! r) else h1 ! r)"
  using assms
  by (simp add: filter_array_def read_array_def new_array_def nth_append)

lemma sort_array_step:
  assumes "r < length h1" "n \<le> r" "take n h1 = h0"
  shows "\<exists>h2. sort_array cmp r h1 = Some h2 \<and> length h2 = length h1 \<and> take n h2 = h0
           \<and> h2 ! r = sort_cmp cmp (h1 ! r)"
  using assms
  by (simp add: sort_array_def read_array_def)

lemma sort_switch_step:
  assumes "r < length h1" "n \<le> r" "take n h1 = h0"
  shows "\<exists>h2. sort_switch key r h1 = Some h2 \<and> length h2 = length h1 \<and> take n h2 = h0
           \<and> h2 ! r = sortCourses key (h1 ! r)"
  using sort_array_step[OF assms, of cmpPopular] sort_array_step[OF assms, of cmpRating]
    sort_array_step[OF assms, of cmpPriceLow] sort_array_step[OF assms, of cmpPriceHigh] assms
  by (simp add: sort_switch_def sortCourses_def)

lemma applyFilters_heap_result:
  assumes "courses s < length h"
  shows "\<exists>r h'. applyFilters_heap toLowerCase s h = Some (s\<lparr>filteredCourses := r\<rparr>, h')
           \<and> length h \<le> r \<and> r < length h' \<and> take (length h) h' = h
           \<and> h' ! r = applyFilters toLowerCase (searchQuery s) (selectedLanguage s) (selectedLevel s)
                         (sortBy s) (h ! courses s)"
proof -
  let ?n = "length h"
  let ?cs = "h ! courses s"
  have s0: "spread (courses s) h = Some (?n, h @ [?cs])"
    using assms by (simp add: spread_def read_array_def new_array_def)
  obtain r1 h1 where s1:
    "(if searchQuery s \<noteq> [] then filter_array (matchesQuery toLowerCase (searchQuery s)) ?n (h @ [?cs])
      else Some (?n, h @ [?cs])) = Some (r1, h1)"
    "r1 < length h1" "?n \<le> r1" "?n \<le> length h1" "take ?n h1 = h"
    "h1 ! r1 = (if searchQuery s \<noteq> [] then filter (matchesQuery toLowerCase (searchQuery s)) ?cs else ?cs)"
    using filter_step[of ?n "h @ [?cs]" ?n h "searchQuery s \<noteq> []" "matchesQuery toLowerCase (searchQuery s)"]
    by auto
  obtain r2 h2 where s2:
    "(if selectedLanguage s \<noteq> [] \<and> selectedLanguage s \<noteq> str ''all''
      then filter_array (matchesLanguage toLowerCase (selectedLanguage s)) r1 h1
      else Some (r1, h1)) = Some (r2, h2)"
    "r2 < length h2" "?n \<le> r2" "?n \<le> length h2" "take ?n h2 = h"
    "h2 ! r2 = (if selectedLanguage s \<noteq> [] \<and> selectedLanguage s \<noteq> str ''all''
                then filter (matchesLanguage toLowerCase (selectedLanguage s)) (h1 ! r1) else h1 ! r1)"
    using filter_step[OF s1(2,3,4,5),
        of "selectedLanguage s \<noteq> [] \<and> selectedLanguage s \<noteq> str ''all''"
           "matchesLanguage toLowerCase (selectedLanguage s)"]
    by blast
  obtain r3 h3 where s3:
    "(if selectedLevel s \<noteq> [] \<and> selectedLevel s \<noteq> str ''all''
      then filter_array (matchesLevel toLowerCase (selectedLevel s)) r2 h2
      else Some (r2, h2)) = Some (r3, h3)"
    "r3 < length h3" "?n \<le> r3" "?n \<le> length h3" "take ?n h3 = h"
    "h3 ! r3 = (if selectedLevel s \<noteq> [] \<and> selectedLevel s \<noteq> str ''all''
                then filter (matchesLevel toLowerCase (selectedLevel s)) (h2 ! r2) else h2 ! r2)"
    using filter_step[OF s2(2,3,4,5),
        of "selectedLevel s \<noteq> [] \<and> selectedLevel s \<noteq> str ''all''"
           "matchesLevel toLowerCase (selectedLevel s)"]
    by blast
  obtain h4 where s4:
    "sort_switch (sortBy s) r3 h3 = Some h4" "length h4 = length h3" "take ?n h4 = h"
    "h4 ! r3 = sortCourses (sortBy s) (h3 ! r3)"
    using sort_switch_step[OF s3(2,3,5)] by blast
  have run: "applyFilters_heap toLowerCase s h = Some (s\<lparr>filteredCourses := r3\<rparr>, h4)"
    unfolding applyFilters_heap_def by (simp only: s0 s1(1) s2(1) s3(1) s4(1) bind.simps split)
  have val: "h4 ! r3 = applyFilters toLowerCase (searchQuery s) (selectedLanguage s) (selectedLevel s)
                         (sortBy s) ?cs"
    by (simp only: s4(4) s3(6) s2(6) s1(6) applyFilters_def filterCourses_def Let_def)
  show ?thesis
    using run val s3(2,3) s4(2,3) by auto
qed

text \<open>
  Claim C10. Whatever the filters and the sort key, \<open>applyFilters\<close> returns a new
  array and leaves its input alone: after the run the array \<open>courses\<close> refers to holds
  the same records in the same order, as does every array that existed before; the
  result is in an array allocated by the run.
\<close>

theorem applyFilters_leaves_input:
  assumes "courses s < length h"
  shows "\<exists>s' h'. applyFilters_heap toLowerCase s h = Some (s', h')
           \<and> courses s' = courses s
           \<and> read_array (courses s) h' = read_array (courses s) h
           \<and> (\<forall>r < length h. read_array r h' = read_array r h)
           \<and> length h \<le> filteredCourses s' \<and> filteredCourses s' \<noteq> courses s
           \<and> read_array (filteredCourses s') h'
               = Some (applyFilters toLowerCase (searchQuery s) (selectedLanguage s) (selectedLevel s)
                         (sortBy s) (h ! courses s))"
proof -
  obtain r h' where run: "applyFilters_heap toLowerCase s h = Some (s\<lparr>filteredCourses := r\<rparr>, h')"
    and new: "length h \<le> r" "r < length h'" and old: "take (length h) h' = h"
    and val: "h' ! r = applyFilters toLowerCase (searchQuery s) (selectedLanguage s) (selectedLevel s)
                         (sortBy s) (h ! courses s)"
    using applyFilters_heap_result[OF assms] by blast
  have same: "read_array i h' = read_array i h" if "i < length h" for i
  proof -
    have "h' ! i = take (length h) h' ! i" using that by simp
    then have "h' ! i = h ! i" by (simp only: old)
    then show ?thesis using that new by (simp add: read_array_def)
  qed
  show ?thesis
    using run new val same assms by (auto simp: read_array_def)
qed

text \<open>The mock catalogue in the store, sorted by rising price into a new array.\<close>

theorem applyFilters_leaves_input_witness:
  "\<exists>s' h'. applyFilters_heap asciiLowerCase demoState [mockCourses, []] = Some (s', h')
     \<and> read_array 0 h' = Some mockCourses
     \<and> filteredCourses s' \<noteq> 0
     \<and> read_array (filteredCourses s') h'
          = Some (applyFilters asciiLowerCase [] (str ''all'') [] (str ''price-low'') mockCourses)"
proof -
  have valid: "courses demoState < length [mockCourses, []]"
    by (simp add: demoState_def)
  have fields: "courses demoState = 0" "searchQuery demoState = []"
    "selectedLanguage demoState = str ''all''" "selectedLevel demoState = []"
    "sortBy demoState = str ''price-low''"
    by (simp_all add: demoState_def)
  have before: "read_array 0 [mockCourses, []] = Some mockCourses"
    by (simp add: read_array_def)
  from applyFilters_leaves_input[OF valid, of asciiLowerCase] obtain s' h' where
    "applyFilters_heap asciiLowerCase demoState [mockCourses, []] = Some (s', h')"
    "read_array (courses demoState) h' = read_array (courses demoState) [mockCourses, []]"
    "filteredCourses s' \<noteq> courses demoState"
    "read_array (filteredCourses s') h'
       = Some (applyFilters asciiLowerCase (searchQuery demoState) (selectedLanguage demoState)
                 (selectedLevel demoState) (sortBy demoState)
                 ([mockCourses, []] ! courses demoState))"
    by blast
  then have "applyFilters_heap asciiLowerCase demoState [mockCourses, []] = Some (s', h')
     \<and> read_array 0 h' = Some mockCourses
     \<and> filteredCourses s' \<noteq> 0
     \<and> read_array (filteredCourses s') h'
          = Some (applyFilters asciiLowerCase [] (str ''all'') [] (str ''price-low'') mockCourses)"
    by (simp add: fields before)
  then show ?thesis by blast
qed

section \<open>Enrolment\<close>

text \<open>
  Claim C4, on the page's own handler. \<open>EnrollmentButton\<close> enrols only a student in a
  published course and reports a second attempt as \<open>already enrolled\<close>.
  \<open>CourseDetail.handleEnroll\<close> does neither: for a student it inserts the row of a
  course that is not published, and a second attempt ends in the general failure
  message. Student 7 and course 3, not published in the first two lines.
\<close>

theorem page_handleEnroll_unguarded:
  "page_handleEnroll True (Some studentSeven) 3 noEnrollments
     = noEnrollments\<lparr>enrollments := [\<lparr>enr_course_id = 3, enr_student_id = 7, enr_progress = 0\<rparr>],
                     enroll_toasts := [SuccessfullyEnrolled]\<rparr>
   \<and> button_handleEnroll True (Some studentSeven) 3 False noEnrollments
     = noEnrollments\<lparr>enroll_toasts := [NotYetPublished]\<rparr>
   \<and> page_handleEnroll True (Some studentSeven) 3
       (page_handleEnroll True (Some studentSeven) 3 noEnrollments)
     = noEnrollments\<lparr>enrollments := [\<lparr>enr_course_id = 3, enr_student_id = 7, enr_progress = 0\<rparr>],
                     enroll_toasts := [SuccessfullyEnrolled, FailedToEnroll]\<rparr>
   \<and> button_handleEnroll True (Some studentSeven) 3 True
       (button_handleEnroll True (Some studentSeven) 3 True noEnrollments)
     = noEnrollments\<lparr>enrollments := [\<lparr>enr_course_id = 3, enr_student_id = 7, enr_progress = 0\<rparr>],
                     enroll_toasts := [SuccessfullyEnrolled, AlreadyEnrolled]\<rparr>"
  by (simp add: page_handleEnroll_def button_handleEnroll_def insert_enrollment_def
      same_pair_def studentSeven_def noEnrollments_def)

section \<open>Uploads\<close>

lemma accept_everything:
  "accept props = str ''*/*'' \<Longrightarrow> str ''*/*'' \<in> set (acceptedTypes props)"
  by (simp add: acceptedTypes_def str_def trim_def isWhiteSpace_def)

lemma validateFile_too_large:
  "file_size f > maxSize props * 1024 * 1024 \<Longrightarrow>
     validateFile toLowerCase props f = Some (FileSizeExceeds (maxSize props))"
  by (simp add: validateFile_def)

lemma validateFile_not_accepted:
  assumes "\<not> file_size f > maxSize props * 1024 * 1024"
    and "file_type f \<notin> set (acceptedTypes props)"
    and "fileExtension toLowerCase f \<notin> set (acceptedTypes props)"
    and "str ''*/*'' \<notin> set (acceptedTypes props)"
  shows "validateFile toLowerCase props f = Some (FileTypeNotSupported (accept props))"
proof -
  have "accept props \<noteq> str ''*/*''"
    using assms(4) accept_everything by blast
  moreover have "\<not> isAccepted toLowerCase props f"
    using assms(2,3,4) by (auto simp: isAccepted_def list_ex_iff)
  ultimately show ?thesis
    using assms(1) by (simp add: validateFile_def)
qed

lemma uploadFile_rejected:
  "validateFile toLowerCase props f = Some reason \<Longrightarrow>
     uploadFile toLowerCase props rnd res f st
       = st\<lparr>upload_toasts := upload_toasts st @ [Rejected reason],
            onUploadError_calls := onUploadError_calls st @ [Inl reason]\<rparr>"
  by (simp add: uploadFile_def)

text \<open>
  Claim C5. A file larger than \<open>maxSize\<close> megabytes, or one whose MIME type and
  extension are both missing from the accepted types (which do not hold the wildcard
  either), is rejected by \<open>uploadFile\<close> with the reason of \<open>validateFile\<close>: the
  reason goes to a toast and to \<open>onUploadError\<close>, no transfer is handed to the storage
  service, and the list of tracked uploads is what it was. The extension is the part of
  the name behind its last dot, lowered by \<open>toLowerCase\<close>; the statement holds for
  every case mapping.
\<close>

theorem uploadFile_rejects_before_transfer:
  assumes "file_size f > maxSize props * 1024 * 1024
           \<or> (file_type f \<notin> set (acceptedTypes props)
               \<and> fileExtension toLowerCase f \<notin> set (acceptedTypes props)
               \<and> str ''*/*'' \<notin> set (acceptedTypes props))"
  shows "\<exists>reason. validateFile toLowerCase props f = Some reason
           \<and> (reason = FileSizeExceeds (maxSize props)
               \<or> reason = FileTypeNotSupported (accept props))
           \<and> uploadFile toLowerCase props rnd res f st
               = st\<lparr>upload_toasts := upload_toasts st @ [Rejected reason],
                    onUploadError_calls := onUploadError_calls st @ [Inl reason]\<rparr>
           \<and> uploadingFiles (uploadFile toLowerCase props rnd res f st) = uploadingFiles st
           \<and> transfers (uploadFile toLowerCase props rnd res f st) = transfers st
           \<and> onUploadComplete_calls (uploadFile toLowerCase props rnd res f st) = onUploadComplete_calls st"
proof -
  obtain reason where reason: "validateFile toLowerCase props f = Some reason"
    "reason = FileSizeExceeds (maxSize props) \<or> reason = FileTypeNotSupported (accept props)"
    using assms validateFile_too_large validateFile_not_accepted by metis
  then show ?thesis
    by (simp add: uploadFile_rejected)
qed

text \<open>A video of 150 MB under the limit of 100 MB, and a text file offered to the video uploader.\<close>

theorem uploadFile_rejects_before_transfer_witness:
  "uploadFile asciiLowerCase videoProps (str ''k3x'') (Stored (str ''https://cdn/k3x.mp4'')) bigVideo noUploads
     = noUploads\<lparr>upload_toasts := [Rejected (FileSizeExceeds 100)],
                 onUploadError_calls := [Inl (FileSizeExceeds 100)]\<rparr>
   \<and> uploadingFiles (uploadFile asciiLowerCase videoProps (str ''k3x'') (Stored (str ''https://cdn/k3x.mp4''))
        bigVideo noUploads) = []
   \<and> transfers (uploadFile asciiLowerCase videoProps (str ''k3x'') (Stored (str ''https://cdn/k3x.mp4''))
        bigVideo noUploads) = []
   \<and> uploadingFiles (uploadFile asciiLowerCase videoProps (str ''k3x'') (Stored (str ''https://cdn/k3x.txt''))
        notesFile noUploads) = []
   \<and> transfers (uploadFile asciiLowerCase videoProps (str ''k3x'') (Stored (str ''https://cdn/k3x.txt''))
        notesFile noUploads) = []"
proof -
  have big: "file_size bigVideo > maxSize videoProps * 1024 * 1024
           \<or> (file_type bigVideo \<notin> set (acceptedTypes videoProps)
               \<and> fileExtension asciiLowerCase bigVideo \<notin> set (acceptedTypes videoProps)
               \<and> str ''*/*'' \<notin> set (acceptedTypes videoProps))"
    by (simp add: bigVideo_def videoProps_def)
  have types: "acceptedTypes videoProps = [str ''.mp4'', str ''.webm'', str ''video/mp4'']"
    by (simp add: acceptedTypes_def videoProps_def str_def trim_def isWhiteSpace_def)
  have ext: "fileExtension asciiLowerCase notesFile = str ''.txt''"
    by (simp add: fileExtension_def notesFile_def pop_def str_def asciiLowerCase_def asciiLowerUnit_def)
  have plain: "file_size notesFile > maxSize videoProps * 1024 * 1024
           \<or> (file_type notesFile \<notin> set (acceptedTypes videoProps)
               \<and> fileExtension asciiLowerCase notesFile \<notin> set (acceptedTypes videoProps)
               \<and> str ''*/*'' \<notin> set (acceptedTypes videoProps))"
    unfolding types ext by (simp add: notesFile_def str_def)
  have reason: "validateFile asciiLowerCase videoProps bigVideo = Some (FileSizeExceeds 100)"
    by (simp add: validateFile_def bigVideo_def videoProps_def)
  have empty: "uploadingFiles noUploads = []" "transfers noUploads = []"
    "upload_toasts noUploads = []" "onUploadError_calls noUploads = []"
    by (simp_all add: noUploads_def)
  show ?thesis
    using uploadFile_rejects_before_transfer[OF big, of "str ''k3x''"
        "Stored (str ''https://cdn/k3x.mp4'')" noUploads]
      uploadFile_rejects_before_transfer[OF plain, of "str ''k3x''"
        "Stored (str ''https://cdn/k3x.txt'')" noUploads]
      reason
    by (auto simp: empty)
qed

section \<open>Quizzes\<close>

lemma trim_empty: "trim [] = []"
  by (simp add: trim_def)

lemma invalidQuestion_empty:
  "question_text q = [] \<or> [] \<in> set (options q) \<Longrightarrow> invalidQuestion q"
proof (erule disjE)
  assume "question_text q = []"
  then show ?thesis by (simp add: invalidQuestion_def trim_empty)
next
  assume "[] \<in> set (options q)"
  then have "\<exists>opt \<in> set (options q). trim opt = []"
    using trim_empty by blast
  then show ?thesis by (simp add: invalidQuestion_def list_ex_iff)
qed

text \<open>
  Claim C6. When the question list is empty, or a question has an empty prompt or an
  empty option, \<open>handleSubmit\<close> sends nothing and shows a validation message, and the
  draft stays open. A request is sent exactly when the list is not empty and every
  question is filled in; then the requests start with one write, the update of the quiz
  being edited or else the insert of a new one, carrying the draft, and nothing that
  follows is a write.
\<close>

theorem quiz_handleSubmit_validation:
  "(questions st = []
      \<or> (\<exists>q \<in> set (questions st). question_text q = [] \<or> [] \<in> set (options q)) \<longrightarrow>
      quiz_requests (quiz_handleSubmit lessonId failed st) = quiz_requests st
      \<and> dialogOpen (quiz_handleSubmit lessonId failed st) = dialogOpen st
      \<and> questions (quiz_handleSubmit lessonId failed st) = questions st
      \<and> (quiz_toasts (quiz_handleSubmit lessonId failed st)
            = quiz_toasts st @ [AddAtLeastOneQuestion]
          \<or> quiz_toasts (quiz_handleSubmit lessonId failed st)
            = quiz_toasts st @ [FillInAllQuestionFields]))
   \<and> (quiz_requests (quiz_handleSubmit lessonId failed st) \<noteq> quiz_requests st \<longleftrightarrow>
        questions st \<noteq> [] \<and> (\<forall>q \<in> set (questions st). \<not> invalidQuestion q))
   \<and> (questions st \<noteq> [] \<and> (\<forall>q \<in> set (questions st). \<not> invalidQuestion q) \<longrightarrow>
        (\<exists>w rest. quiz_requests (quiz_handleSubmit lessonId failed st)
                     = quiz_requests st @ w # rest
                 \<and> is_write w \<and> filter is_write rest = []
                 \<and> (\<exists>d. qd_lesson_id d = lessonId \<and> qd_title d = form_title st
                        \<and> qd_questions d = questions st
                        \<and> w = (case editingQuiz st of
                                  Some q \<Rightarrow> UpdateQuiz (quiz_id q) d
                                | None \<Rightarrow> InsertQuiz d))))"
proof -
  have invalid: "filter invalidQuestion (questions st) \<noteq> []"
    if "\<exists>q \<in> set (questions st). question_text q = [] \<or> [] \<in> set (options q)"
    using that invalidQuestion_empty by (auto simp: filter_empty_conv)
  have valid: "filter invalidQuestion (questions st) = []"
    if "\<forall>q \<in> set (questions st). \<not> invalidQuestion q"
    using that by (simp add: filter_empty_conv)
  have part1: "quiz_requests (quiz_handleSubmit lessonId failed st) = quiz_requests st
      \<and> dialogOpen (quiz_handleSubmit lessonId failed st) = dialogOpen st
      \<and> questions (quiz_handleSubmit lessonId failed st) = questions st
      \<and> (quiz_toasts (quiz_handleSubmit lessonId failed st)
            = quiz_toasts st @ [AddAtLeastOneQuestion]
          \<or> quiz_toasts (quiz_handleSubmit lessonId failed st)
            = quiz_toasts st @ [FillInAllQuestionFields])"
    if "questions st = []
      \<or> (\<exists>q \<in> set (questions st). question_text q = [] \<or> [] \<in> set (options q))"
    using that invalid by (auto simp: quiz_handleSubmit_def)
  have part2: "quiz_requests (quiz_handleSubmit lessonId failed st) \<noteq> quiz_requests st \<longleftrightarrow>
        questions st \<noteq> [] \<and> (\<forall>q \<in> set (questions st). \<not> invalidQuestion q)"
    by (cases "editingQuiz st")
      (auto simp: quiz_handleSubmit_def Let_def filter_empty_conv)
  have part3: "\<exists>w rest. quiz_requests (quiz_handleSubmit lessonId failed st)
                     = quiz_requests st @ w # rest
                 \<and> is_write w \<and> filter is_write rest = []
                 \<and> (\<exists>d. qd_lesson_id d = lessonId \<and> qd_title d = form_title st
                        \<and> qd_questions d = questions st
                        \<and> w = (case editingQuiz st of
                                  Some q \<Rightarrow> UpdateQuiz (quiz_id q) d
                                | None \<Rightarrow> InsertQuiz d))"
    if "questions st \<noteq> [] \<and> (\<forall>q \<in> set (questions st). \<not> invalidQuestion q)"
    using that valid
    by (cases "editingQuiz st"; cases failed) (auto simp: quiz_handleSubmit_def Let_def)
  show ?thesis
    using part1 part2 part3 by blast
qed

text \<open>A draft whose only question has an empty option, an empty draft, and a complete one.\<close>

theorem quiz_handleSubmit_validation_witness:
  "quiz_requests (quiz_handleSubmit (str ''l1'') False (draftQuiz [blankOption])) = []
   \<and> quiz_toasts (quiz_handleSubmit (str ''l1'') False (draftQuiz [blankOption]))
       = [FillInAllQuestionFields]
   \<and> quiz_requests (quiz_handleSubmit (str ''l1'') False (draftQuiz [])) = []
   \<and> (\<exists>w rest. quiz_requests (quiz_handleSubmit (str ''l1'') False
                     (draftQuiz [blankOption\<lparr>options := [str ''a'', str ''b'', str ''c'', str ''d'']\<rparr>]))
                   = w # rest \<and> is_write w \<and> filter is_write rest = [])"
proof -
  let ?good = "blankOption\<lparr>options := [str ''a'', str ''b'', str ''c'', str ''d'']\<rparr>"
  have blank: "questions (draftQuiz [blankOption]) = []
      \<or> (\<exists>q \<in> set (questions (draftQuiz [blankOption])).
            question_text q = [] \<or> [] \<in> set (options q))"
    by (simp add: draftQuiz_def blankOption_def)
  have none: "questions (draftQuiz []) = []
      \<or> (\<exists>q \<in> set (questions (draftQuiz [])). question_text q = [] \<or> [] \<in> set (options q))"
    by (simp add: draftQuiz_def)
  have good: "questions (draftQuiz [?good]) \<noteq> []
      \<and> (\<forall>q \<in> set (questions (draftQuiz [?good])). \<not> invalidQuestion q)"
    by (simp add: draftQuiz_def blankOption_def invalidQuestion_def trim_def isWhiteSpace_def str_def)
  have toast: "quiz_toasts (quiz_handleSubmit (str ''l1'') False (draftQuiz [blankOption]))
       \<noteq> quiz_toasts (draftQuiz [blankOption]) @ [AddAtLeastOneQuestion]"
    by (simp add: quiz_handleSubmit_def draftQuiz_def)
  have empty: "quiz_requests (draftQuiz qs) = []" "quiz_toasts (draftQuiz qs) = []" for qs
    by (simp_all add: draftQuiz_def)
  note a = quiz_handleSubmit_validation[of "draftQuiz [blankOption]" "str ''l1''" False,
      THEN conjunct1, THEN mp, OF blank]
  note b = quiz_handleSubmit_validation[of "draftQuiz []" "str ''l1''" False,
      THEN conjunct1, THEN mp, OF none]
  note c = quiz_handleSubmit_validation[of "draftQuiz [?good]" "str ''l1''" False,
      THEN conjunct2, THEN conjunct2, THEN mp, OF good]
  show ?thesis
    using a b c toast by (auto simp: empty)
qed

section \<open>Lessons\<close>

text \<open>
  Claim C8, on \<open>handleDelete\<close>. The lessons of the course have the indexes 0, 1, 2.
  Deleting the middle lesson leaves 0 and 2: nothing renumbers the rest. The next lesson
  created gets the index 2, the length of the list, a second time. \<open>reorderLessons\<close>
  on the two lessons left would have given them 0 and 1; \<open>handleDelete\<close> does not
  call it.
\<close>

theorem lesson_handleDelete_leaves_gap:
  "map order_index (lessons threeLessons) = [0, 1, 2]
   \<and> map order_index (lessons (lesson_handleDelete 1 11 threeLessons)) = [0, 2]
   \<and> map order_index
        (lessons (lesson_handleSubmit 1 13 demoForm (lesson_handleDelete 1 11 threeLessons)))
       = [0, 2, 2]
   \<and> map lesson_id
        (lessons (lesson_handleSubmit 1 13 demoForm (lesson_handleDelete 1 11 threeLessons)))
       = [10, 12, 13]
   \<and> map order_index
        (lessons (reorderLessons 1 (lessons (lesson_handleDelete 1 11 threeLessons))
                    (lesson_handleDelete 1 11 threeLessons)))
       = [0, 1]"
  by (simp add: lesson_handleDelete_def lesson_handleSubmit_def fetchLessons_def threeLessons_def
      demoLesson_def demoForm_def Let_def reorderLessons_def set_order_index_def upt_rec)

section \<open>Notifications\<close>

text \<open>
  Claim C9, as the code has it. Every delivery of an insert event puts the notification
  at the head of the list and raises the unread count by one: the same event delivered
  twice leaves two copies and a count two higher.
\<close>

theorem on_insert_twice:
  "on_insert n (on_insert n st) =
     st\<lparr>notifications := n # n # notifications st,
        unreadCount := unreadCount st + 2,
        info_toasts := info_toasts st + 2\<rparr>"
  by (simp add: on_insert_def)

text \<open>One event delivered twice to an empty centre, against the same event delivered once.\<close>

theorem on_insert_not_idempotent:
  "notifications (on_insert demoNotification (on_insert demoNotification emptyNotifications))
     = [demoNotification, demoNotification]
   \<and> notifications (on_insert demoNotification emptyNotifications) = [demoNotification]
   \<and> unreadCount (on_insert demoNotification (on_insert demoNotification emptyNotifications)) = 2
   \<and> unreadCount (on_insert demoNotification emptyNotifications) = 1
   \<and> on_insert demoNotification (on_insert demoNotification emptyNotifications)
       \<noteq> on_insert demoNotification emptyNotifications"
proof -
  have "unreadCount (on_insert demoNotification (on_insert demoNotification emptyNotifications)) = 2"
    "unreadCount (on_insert demoNotification emptyNotifications) = 1"
    by (simp_all add: on_insert_def emptyNotifications_def)
  then have "on_insert demoNotification (on_insert demoNotification emptyNotifications)
       \<noteq> on_insert demoNotification emptyNotifications"
    by auto
  then show ?thesis
    by (simp add: on_insert_def emptyNotifications_def)
qed

end
